theory Spec2Isabelle
  imports Complex_Main "HOL-Library.Sublist"
begin

section \<open>Python values used by the web converter\<close>

text \<open>
  The repository is two Python modules: \<^verbatim>\<open>converter_app.py\<close> (a Flask application with
  the routes \<^verbatim>\<open>/convert\<close>, \<^verbatim>\<open>/status\<close>, \<^verbatim>\<open>/clear\<close> and the job function
  \<^verbatim>\<open>process_single_file\<close>) and \<^verbatim>\<open>convert_to_markdown.py\<close> (the single-file conversion
  \<^verbatim>\<open>convert_file_to_markdown\<close> and \<^verbatim>\<open>batch_convert\<close>).  Strings are byte lists; the
  whitespace test is the ASCII part of Python's \<^verbatim>\<open>str.isspace\<close>.
\<close>

definition isspace :: "char \<Rightarrow> bool" where
  "isspace c = (c \<in> set [CHR 0x09, CHR 0x0A, CHR 0x0B, CHR 0x0C, CHR 0x0D,
                           CHR 0x1C, CHR 0x1D, CHR 0x1E, CHR 0x1F, CHR '' ''])"

text \<open>\<^verbatim>\<open>s.strip()\<close>: leading and trailing whitespace removed.\<close>

definition strip :: "string \<Rightarrow> string" where
  "strip s = rev (dropWhile isspace (rev (dropWhile isspace s)))"

text \<open>\<^verbatim>\<open>sub in s\<close> on strings: \<open>sub\<close> occurs as a contiguous piece of \<open>s\<close>.\<close>

fun str_in :: "string \<Rightarrow> string \<Rightarrow> bool" where
  "str_in sub [] = (sub = [])"
| "str_in sub (c # cs) = (prefix sub (c # cs) \<or> str_in sub cs)"

text \<open>
  A Python number as the program produces it: \<^verbatim>\<open>int\<close>, or \<^verbatim>\<open>float\<close>.  The only floats
  the program computes are halves of small integers and the delays 0.5, 1.0, 2.0, all
  exactly representable, so a float is modelled by the rational it denotes.
\<close>

datatype pynum = PyInt int | PyFloat rat


section \<open>Worker counts\<close>

text \<open>
  \<^verbatim>\<open>MAX_WORKERS = max(1, ((multiprocessing.cpu_count()/2) - 1))\<close>
  (\<^verbatim>\<open>converter_app.py\<close>, line 19).  \<^verbatim>\<open>/\<close> is Python 3's true division, so the second
  argument of \<^verbatim>\<open>max\<close> is a float; \<^verbatim>\<open>max(1, x)\<close> returns \<open>x\<close> when \<open>x > 1\<close> and the
  integer \<open>1\<close> otherwise.  The CPU count is a parameter.
\<close>

definition MAX_WORKERS :: "nat \<Rightarrow> pynum" where
  "MAX_WORKERS cpu_count =
     (let x = (of_nat cpu_count / 2) - 1
      in if (1::rat) < x then PyFloat x else PyInt 1)"

text \<open>
  The capacity formula of the specification, \<open>max(1, floor(c / 2) - 1)\<close>, written from
  the specification's words for comparison with \<open>MAX_WORKERS\<close>.
\<close>

definition spec_capacity :: "nat \<Rightarrow> int" where
  "spec_capacity c = max 1 (int c div 2 - 1)"

text \<open>
  \<^verbatim>\<open>batch_convert(file_paths, max_workers=None)\<close> (\<^verbatim>\<open>convert_to_markdown.py\<close>,
  lines 180--213).  The conversion of one file is the parameter \<open>conv\<close>: \<open>Inr\<close> of the
  returned pair, or \<open>Inl\<close> of the text of an exception delivered by \<^verbatim>\<open>future.result()\<close>.
  The constructor
  \<^verbatim>\<open>ProcessPoolExecutor(max_workers=...)\<close> of the standard library raises \<^verbatim>\<open>ValueError\<close>
  when \<^verbatim>\<open>max_workers <= 0\<close>; it is called before any task is submitted and the
  function has no handler around it, so the exception leaves \<^verbatim>\<open>batch_convert\<close>.
  The result dictionary is a map; a path listed twice is written twice under one key.
\<close>

definition batch_max_workers :: "nat \<Rightarrow> string list \<Rightarrow> int option \<Rightarrow> int" where
  "batch_max_workers cpu_count file_paths max_workers =
     (case max_workers of
        None \<Rightarrow> min (int cpu_count) (int (length file_paths))
      | Some m \<Rightarrow> m)"

fun collect_results ::
  "(string \<Rightarrow> string + bool \<times> string) \<Rightarrow> string list \<Rightarrow>
   (string \<rightharpoonup> bool \<times> string) \<Rightarrow> (string \<rightharpoonup> bool \<times> string)" where
  "collect_results conv [] results = results"
| "collect_results conv (file_path # rest) results =
     collect_results conv rest
       (results(file_path \<mapsto>
          (case conv file_path of
             Inr (success, message) \<Rightarrow> (success, message)
           | Inl e \<Rightarrow> (False, ''Conversion failed: '' @ e))))"

definition batch_convert ::
  "nat \<Rightarrow> (string \<Rightarrow> string + bool \<times> string) \<Rightarrow> string list \<Rightarrow> int option \<Rightarrow>
   string + (string \<rightharpoonup> bool \<times> string)" where
  "batch_convert cpu_count conv file_paths max_workers =
     (let mw = batch_max_workers cpu_count file_paths max_workers
      in if mw \<le> 0 then Inl ''max_workers must be greater than 0''
         else Inr (collect_results conv file_paths Map.empty))"


section \<open>Path resolution in the convert route\<close>

text \<open>
  The file system is read through \<^verbatim>\<open>os.path.isfile\<close>, \<^verbatim>\<open>os.path.isdir\<close> and
  \<^verbatim>\<open>glob.glob(pattern, recursive=...)\<close>, library calls whose answers are the fields of
  a record.  The file system does not change while one request is resolved.
\<close>

record filesystem =
  isfile :: "string \<Rightarrow> bool"
  isdir :: "string \<Rightarrow> bool"
  glob :: "string \<Rightarrow> bool \<Rightarrow> string list"

text \<open>\<^verbatim>\<open>os.path.join(a, b)\<close> with the POSIX separator.\<close>

definition path_join :: "string \<Rightarrow> string \<Rightarrow> string" where
  "path_join a b =
     (if prefix ''/'' b then b
      else if a = [] \<or> suffix ''/'' a then a @ b
      else a @ ''/'' @ b)"

definition has_wildcard :: "string \<Rightarrow> bool" where
  "has_wildcard path = (CHR ''*'' \<in> set path \<or> CHR ''?'' \<in> set path)"

definition supported_patterns :: "string list" where
  "supported_patterns = [''*.pdf'', ''*.docx'', ''*.pptx'']"

text \<open>
  The body of \<^verbatim>\<open>for path in paths:\<close> (lines 454--480): the paths one entry appends to
  \<^verbatim>\<open>files_to_convert\<close>.
\<close>

definition expand_entry :: "filesystem \<Rightarrow> string \<Rightarrow> string list" where
  "expand_entry fs raw =
     (let path = strip raw in
      if path = [] then []
      else if has_wildcard path then
        (let matched_files =
               (if str_in ''**'' path then glob fs path True else glob fs path False)
         in filter (isfile fs) matched_files)
      else if isfile fs path then [path]
      else if isdir fs path then
        concat (map (\<lambda>ext. glob fs (path_join path ext) False) supported_patterns)
      else [])"

fun resolve_loop :: "filesystem \<Rightarrow> string list \<Rightarrow> string list \<Rightarrow> string list" where
  "resolve_loop fs [] files_to_convert = files_to_convert"
| "resolve_loop fs (path # paths) files_to_convert =
     resolve_loop fs paths (files_to_convert @ expand_entry fs path)"

definition resolve :: "filesystem \<Rightarrow> string list \<Rightarrow> string list" where
  "resolve fs paths = resolve_loop fs paths []"


section \<open>The status store\<close>

text \<open>
  One value of \<^verbatim>\<open>conversion_status\<close> is a dictionary with the keys \<^verbatim>\<open>'status'\<close>,
  \<^verbatim>\<open>'message'\<close> and \<^verbatim>\<open>'timestamp'\<close>, always built by one dictionary display.
\<close>

record status_entry =
  status_of :: string
  message_of :: string
  timestamp_of :: string

text \<open>
  Dictionaries are objects, and the claims about snapshots depend on which objects are
  shared, so the store is a heap: \<open>dicts\<close> holds the path-keyed dictionaries (a path
  maps to the reference of its record), \<open>recs\<close> the record dictionaries, the module
  global \<open>conversion_status\<close> is a reference, and \<open>next_ref\<close> is the next unused
  reference.  \<open>work_queue\<close> is the queue of the module's \<^verbatim>\<open>ThreadPoolExecutor\<close>: the
  arguments of the submitted \<^verbatim>\<open>process_single_file\<close> calls no worker has taken yet.
\<close>

type_synonym ref = nat

record app_state =
  dicts :: "ref \<Rightarrow> (string \<rightharpoonup> ref)"
  recs :: "ref \<rightharpoonup> status_entry"
  conversion_status :: ref
  next_ref :: ref
  work_queue :: "string list"

text \<open>The module after import: \<^verbatim>\<open>conversion_status = {}\<close> and an idle executor.\<close>

definition init_state :: app_state where
  "init_state =
     \<lparr>dicts = (\<lambda>_. Map.empty), recs = Map.empty, conversion_status = 0, next_ref = 1,
      work_queue = []\<rparr>"

text \<open>
  \<^verbatim>\<open>with conversion_lock: conversion_status[file_path] = {...}\<close>: a new record object is
  built and the dictionary the global refers to at that moment is updated in place.
\<close>

definition setitem :: "string \<Rightarrow> status_entry \<Rightarrow> app_state \<Rightarrow> app_state" where
  "setitem file_path entry s =
     (let r = next_ref s; d = conversion_status s
      in s\<lparr>recs := (recs s)(r \<mapsto> entry),
           dicts := (dicts s)(d := (dicts s d)(file_path \<mapsto> r)),
           next_ref := Suc r\<rparr>)"

text \<open>
  The route \<^verbatim>\<open>clear\<close>: \<^verbatim>\<open>with conversion_lock: conversion_status = {}\<close> binds the global
  to a new empty dictionary.
\<close>

definition clear :: "app_state \<Rightarrow> app_state" where
  "clear s =
     (let d = next_ref s
      in s\<lparr>dicts := (dicts s)(d := Map.empty), conversion_status := d, next_ref := Suc d\<rparr>)"

text \<open>\<^verbatim>\<open>dict(d)\<close>: a new dictionary with the same keys and the same (shared) values.\<close>

definition dict_copy :: "ref \<Rightarrow> app_state \<Rightarrow> ref \<times> app_state" where
  "dict_copy d s =
     (let d' = next_ref s
      in (d', s\<lparr>dicts := (dicts s)(d' := dicts s d), next_ref := Suc d'\<rparr>))"

text \<open>
  \<^verbatim>\<open>jsonify(d)\<close> serialises the dictionary at once: it reads every record through its
  reference and returns text, here the map from paths to record values.
\<close>

definition jsonify :: "app_state \<Rightarrow> ref \<Rightarrow> (string \<rightharpoonup> status_entry)" where
  "jsonify s d = (\<lambda>path. case dicts s d path of None \<Rightarrow> None | Some r \<Rightarrow> recs s r)"

text \<open>
  The route \<^verbatim>\<open>status\<close>: \<^verbatim>\<open>with conversion_lock: return jsonify(dict(conversion_status))\<close>.
\<close>

definition status :: "app_state \<Rightarrow> (string \<rightharpoonup> status_entry) \<times> app_state" where
  "status s = (let (d, s') = dict_copy (conversion_status s) s in (jsonify s' d, s'))"

text \<open>\<^verbatim>\<open>executor.submit(process_single_file, file_path)\<close> puts the call in the queue.\<close>

definition executor_submit :: "string \<Rightarrow> app_state \<Rightarrow> app_state" where
  "executor_submit file_path s = s\<lparr>work_queue := work_queue s @ [file_path]\<rparr>"

text \<open>
  The statements that touch the shared state, each executed as one step (the writes
  and the snapshot hold \<^verbatim>\<open>conversion_lock\<close>).  A thread is the list of the statements
  it executes.
\<close>

datatype op = SetItem string status_entry | ExecutorSubmit string | ClearAll | Snapshot

fun exec_op :: "op \<Rightarrow> app_state \<Rightarrow> app_state" where
  "exec_op (SetItem file_path entry) s = setitem file_path entry s"
| "exec_op (ExecutorSubmit file_path) s = executor_submit file_path s"
| "exec_op ClearAll s = clear s"
| "exec_op Snapshot s = snd (status s)"

definition run :: "op list \<Rightarrow> app_state \<Rightarrow> app_state" where
  "run ops s = fold exec_op ops s"

text \<open>
  The store as the specification describes it, written from its words: \<open>Upsert\<close>
  replaces the full record of a path, \<open>Clear\<close> replaces the mapping with an empty one,
  everything else leaves it alone.
\<close>

fun spec_exec :: "op \<Rightarrow> (string \<rightharpoonup> status_entry) \<Rightarrow> (string \<rightharpoonup> status_entry)" where
  "spec_exec (SetItem file_path entry) m = m(file_path \<mapsto> entry)"
| "spec_exec ClearAll m = Map.empty"
| "spec_exec (ExecutorSubmit file_path) m = m"
| "spec_exec Snapshot m = m"

definition spec_store :: "op list \<Rightarrow> (string \<rightharpoonup> status_entry)" where
  "spec_store ops = fold spec_exec ops Map.empty"

text \<open>
  References handed out so far are below \<open>next_ref\<close>: the invariant of the allocator.
\<close>

definition wf :: "app_state \<Rightarrow> bool" where
  "wf s = (conversion_status s < next_ref s \<and>
           (\<forall>d path r. dicts s d path = Some r \<longrightarrow> r < next_ref s))"


section \<open>The job and the convert route\<close>

text \<open>
  \<^verbatim>\<open>process_single_file(file_path)\<close> (lines 404--440).  \<open>collab file_path\<close> is what the
  call \<^verbatim>\<open>convert_file_to_markdown(file_path)\<close> does: \<open>Inr (success, message)\<close> when it
  returns, \<open>Inl text\<close> when it raises an \<^verbatim>\<open>Exception\<close> whose \<^verbatim>\<open>str\<close> is \<open>text\<close>.
  \<open>now k\<close> is the text of the \<open>k\<close>-th reading of \<^verbatim>\<open>datetime.now().isoformat()\<close> in the
  call.  \<open>try_body\<close> is the \<^verbatim>\<open>try\<close> block: the statements it executed and how it ended.
  The function returns the statements executed and the exception that leaves it, if
  any.  The handler is \<^verbatim>\<open>except Exception\<close>; exceptions outside that class
  (\<^verbatim>\<open>KeyboardInterrupt\<close>, \<^verbatim>\<open>SystemExit\<close>) and what the handler prints are not modelled.
\<close>

definition try_body ::
  "(string \<Rightarrow> string + bool \<times> string) \<Rightarrow> (nat \<Rightarrow> string) \<Rightarrow> string \<Rightarrow> op list \<times> (string + unit)" where
  "try_body collab now file_path =
     (let processing =
            SetItem file_path
              \<lparr>status_of = ''Processing'', message_of = ''Converting to Markdown...'',
               timestamp_of = now 0\<rparr>
      in case collab file_path of
           Inl e \<Rightarrow> ([processing], Inl e)
         | Inr (success, message) \<Rightarrow>
             (if success then
                ([processing,
                  SetItem file_path
                    \<lparr>status_of = ''Completed'', message_of = message, timestamp_of = now 1\<rparr>],
                 Inr ())
              else
                ([processing,
                  SetItem file_path
                    \<lparr>status_of = ''Error'', message_of = message, timestamp_of = now 1\<rparr>],
                 Inr ())))"

definition process_single_file ::
  "(string \<Rightarrow> string + bool \<times> string) \<Rightarrow> (nat \<Rightarrow> string) \<Rightarrow> string \<Rightarrow> op list \<times> string option" where
  "process_single_file collab now file_path =
     (case try_body collab now file_path of
        (ops, Inr u) \<Rightarrow> (ops, None)
      | (ops, Inl e) \<Rightarrow>
          (ops @ [SetItem file_path
                    \<lparr>status_of = ''Error'', message_of = ''Error: '' @ e,
                     timestamp_of = now 1\<rparr>],
           None))"

text \<open>
  The record a job must leave behind, written from the specification's words:
  Completed with the collaborator's message when it reports success, Error with its
  message when it reports failure, Error with a diagnostic when it raises.
\<close>

definition final_entry :: "(string + bool \<times> string) \<Rightarrow> string \<Rightarrow> status_entry" where
  "final_entry outcome t =
     (case outcome of
        Inr (ok, msg) \<Rightarrow>
          \<lparr>status_of = (if ok then ''Completed'' else ''Error''), message_of = msg,
           timestamp_of = t\<rparr>
      | Inl e \<Rightarrow> \<lparr>status_of = ''Error'', message_of = ''Error: '' @ e, timestamp_of = t\<rparr>)"

text \<open>A write of a final state, \<^verbatim>\<open>'Completed'\<close> or \<^verbatim>\<open>'Error'\<close>.\<close>

fun terminal_write :: "op \<Rightarrow> bool" where
  "terminal_write (SetItem file_path entry) =
     (status_of entry = ''Completed'' \<or> status_of entry = ''Error'')"
| "terminal_write (ExecutorSubmit file_path) = False"
| "terminal_write ClearAll = False"
| "terminal_write Snapshot = False"

text \<open>
  The route \<^verbatim>\<open>convert\<close> (lines 446--500) on a request whose \<^verbatim>\<open>paths\<close> is a list of
  strings.  \<open>submit_loop\<close> is \<^verbatim>\<open>for file_path in files_to_convert:\<close> (lines 483--491),
  the \<open>i\<close>-th round reading the clock for the \<open>i\<close>-th time.
\<close>

record response =
  success :: bool
  queued :: nat
  files :: "string list"





section \<open>Threads\<close>









section \<open>Converting one file\<close>

text \<open>
  \<^verbatim>\<open>convert_file_to_markdown(input_file, output_file=None)\<close>
  (\<^verbatim>\<open>convert_to_markdown.py\<close>, lines 91--178).  What the operating system and the
  \<^verbatim>\<open>MarkItDown\<close> library answer during one call is a record: whether the input exists,
  the default output path, the result of \<^verbatim>\<open>tempfile.mkstemp\<close> (called before the \<^verbatim>\<open>try\<close>
  block, so its exception leaves the function), of the \<open>attempt\<close>-th \<^verbatim>\<open>shutil.copy2\<close>, of
  the manual read and write, of the conversion and of writing the output (\<open>None\<close>: no
  exception).  An exception is represented by its text \<^verbatim>\<open>str(e)\<close>.  The text that is
  written to the output file is not part of the model.
\<close>

datatype io_outcome = Done | OSError string | OtherException string

record conv_env =
  file_exists :: bool
  default_output :: string
  mkstemp :: "string + string"
  copy2 :: "nat \<Rightarrow> io_outcome"
  raw_copy :: "string option"
  markitdown_convert :: "string option"
  write_output :: "string option"

text \<open>What the copy loop did, in order: the calls it made.\<close>

datatype io_event = CopyAttempt nat | Sleep rat | RawCopy

text \<open>
  How the loop ends: it is left normally (by \<^verbatim>\<open>break\<close> or at the end of the range), the
  function returns from inside it, or an exception leaves it.
\<close>

datatype copy_phase = Copied | Returned "bool \<times> string" | Raised string

definition max_retries :: nat where
  "max_retries = 3"

definition is_lock_error :: "string \<Rightarrow> bool" where
  "is_lock_error e =
     (str_in ''being used by another process'' e \<or> str_in ''Permission denied'' e)"

text \<open>
  \<^verbatim>\<open>for attempt in range(max_retries):\<close> (lines 125--146), by recursion on the attempts
  still to make; \<open>retry_delay\<close> is the loop's variable of that name.
\<close>

fun copy_loop ::
  "conv_env \<Rightarrow> nat list \<Rightarrow> rat \<Rightarrow> io_event list \<Rightarrow> copy_phase \<times> io_event list" where
  "copy_loop env [] retry_delay trace = (Copied, trace)"
| "copy_loop env (attempt # rest) retry_delay trace =
     (case copy2 env attempt of
        Done \<Rightarrow> (Copied, trace @ [CopyAttempt attempt])
      | OSError e \<Rightarrow>
          if is_lock_error e then
            if attempt < max_retries - 1 then
              copy_loop env rest (retry_delay * 2)
                (trace @ [CopyAttempt attempt, Sleep retry_delay])
            else
              (case raw_copy env of
                 None \<Rightarrow> copy_loop env rest retry_delay (trace @ [CopyAttempt attempt, RawCopy])
               | Some read_error \<Rightarrow>
                   (Returned (False, ''File is in use and cannot be accessed: '' @ read_error),
                    trace @ [CopyAttempt attempt, RawCopy]))
          else (Raised e, trace @ [CopyAttempt attempt])
      | OtherException e \<Rightarrow> (Raised e, trace @ [CopyAttempt attempt]))"

text \<open>The statements of the \<^verbatim>\<open>try\<close> block after the loop (lines 148--168).\<close>

definition after_copy :: "conv_env \<Rightarrow> string \<Rightarrow> bool \<times> string" where
  "after_copy env output_path =
     (case markitdown_convert env of
        Some e \<Rightarrow> (False, ''markitdown conversion failed: '' @ e)
      | None \<Rightarrow>
          (case write_output env of
             Some e \<Rightarrow> (False, ''Error during conversion: '' @ e)
           | None \<Rightarrow> (True, ''Successfully converted to: '' @ output_path)))"

text \<open>
  The output path (lines 112--115): the argument when it is given and not empty, the
  input's path with the suffix \<^verbatim>\<open>.md\<close> otherwise.  The result of the function is \<open>Inr\<close>
  of the returned pair or \<open>Inl\<close> of the exception that leaves the function, together
  with the calls the copy loop made.
\<close>

definition choose_output :: "conv_env \<Rightarrow> string option \<Rightarrow> string" where
  "choose_output env output_file =
     (case output_file of
        None \<Rightarrow> default_output env
      | Some out \<Rightarrow> if out = [] then default_output env else out)"

definition convert_file_to_markdown ::
  "conv_env \<Rightarrow> string \<Rightarrow> string option \<Rightarrow> (string + bool \<times> string) \<times> io_event list" where
  "convert_file_to_markdown env input_file output_file =
     (if \<not> file_exists env then (Inr (False, ''File does not exist: '' @ input_file), [])
      else
        (let output_path = choose_output env output_file
         in case mkstemp env of
              Inl e \<Rightarrow> (Inl e, [])
            | Inr temp_file \<Rightarrow>
                (case copy_loop env [0..<max_retries] (1 / 2) [] of
                   (Copied, trace) \<Rightarrow> (Inr (after_copy env output_path), trace)
                 | (Returned r, trace) \<Rightarrow> (Inr r, trace)
                 | (Raised e, trace) \<Rightarrow> (Inr (False, ''Error during conversion: '' @ e), trace))))"



fun locked :: "io_outcome \<Rightarrow> bool" where
  "locked Done = False"
| "locked (OSError e) = is_lock_error e"
| "locked (OtherException e) = False"


text \<open>How an attempt that is not retried leaves the loop: by \<^verbatim>\<open>break\<close> or by raising.\<close>

definition ending :: "io_outcome \<Rightarrow> copy_phase" where
  "ending x = (case x of Done \<Rightarrow> Copied | OSError e \<Rightarrow> Raised e | OtherException e \<Rightarrow> Raised e)"


section \<open>Concrete inputs\<close>

text \<open>A clock whose \<open>k\<close>-th reading is a string of \<open>k\<close> strokes.\<close>

definition strokes :: "nat \<Rightarrow> string" where
  "strokes k = replicate k (CHR ''|'')"



text \<open>
  A directory \<^verbatim>\<open>docs\<close> holding the regular files \<^verbatim>\<open>report.pdf\<close> and \<^verbatim>\<open>notes.txt\<close> and
  the subdirectory \<^verbatim>\<open>archive.pdf\<close>.  \<^verbatim>\<open>glob.glob\<close> matches names, whatever their kind.
\<close>

definition docs_fs :: filesystem where
  "docs_fs =
     \<lparr>isfile = (\<lambda>path. path = ''docs/report.pdf'' \<or> path = ''docs/notes.txt''),
      isdir = (\<lambda>path. path = ''docs'' \<or> path = ''docs/archive.pdf''),
      glob = (\<lambda>pattern recursive.
                if pattern = ''docs/*.pdf'' then [''docs/archive.pdf'', ''docs/report.pdf'']
                else if pattern = ''docs/*'' then
                  [''docs/archive.pdf'', ''docs/notes.txt'', ''docs/report.pdf'']
                else [])\<rparr>"

text \<open>
  A source file another process keeps locked: every \<^verbatim>\<open>copy2\<close> fails with
  \<^verbatim>\<open>Permission denied\<close>, and so does the manual read.
\<close>

definition locked_env :: conv_env where
  "locked_env =
     \<lparr>file_exists = True, default_output = ''a.md'', mkstemp = Inr ''tmp.pdf'',
      copy2 = (\<lambda>attempt. OSError ''[Errno 13] Permission denied''),
      raw_copy = Some ''[Errno 13] Permission denied'',
      markitdown_convert = None, write_output = None\<rparr>"

text \<open>A conversion that succeeds at once, and one whose temporary file cannot be made.\<close>

definition easy_env :: conv_env where
  "easy_env =
     \<lparr>file_exists = True, default_output = ''a.md'', mkstemp = Inr ''tmp.pdf'',
      copy2 = (\<lambda>attempt. Done), raw_copy = None,
      markitdown_convert = None, write_output = None\<rparr>"

definition no_temp_env :: conv_env where
  "no_temp_env = easy_env\<lparr>mkstemp := Inl ''[Errno 28] No space left on device''\<rparr>"


definition no_temp_collab :: "string \<Rightarrow> string + bool \<times> string" where
  "no_temp_collab file_path = fst (convert_file_to_markdown no_temp_env file_path None)"




text \<open>Two writes of one path, around a snapshot.\<close>

definition first_entry :: status_entry where
  "first_entry =
     \<lparr>status_of = ''Processing'', message_of = ''Converting to Markdown...'',
      timestamp_of = ''|''\<rparr>"

definition second_entry :: status_entry where
  "second_entry =
     \<lparr>status_of = ''Completed'', message_of = ''Successfully converted to: a.md'',
      timestamp_of = ''||''\<rparr>"


section \<open>Properties of path resolution\<close>





lemma work_queue_setitem [simp]: "work_queue (setitem file_path entry s) = work_queue s"
  by (simp add: setitem_def Let_def)








lemma expand_entry_directory:
  assumes "\<not> has_wildcard p" "strip p = p" "p \<noteq> []" "\<not> isfile fs p" "isdir fs p"
  shows "expand_entry fs p =
           glob fs (path_join p ''*.pdf'') False @ glob fs (path_join p ''*.docx'') False
           @ glob fs (path_join p ''*.pptx'') False"
  using assms by (simp add: expand_entry_def supported_patterns_def)

lemma strip_docs: "strip ''docs'' = ''docs''"
  by (simp add: strip_def isspace_def)

lemma join_docs:
  "path_join ''docs'' ''*.pdf'' = ''docs/*.pdf''"
  "path_join ''docs'' ''*.docx'' = ''docs/*.docx''"
  "path_join ''docs'' ''*.pptx'' = ''docs/*.pptx''"
  by (simp_all add: path_join_def suffix_to_prefix)

lemma expand_docs: "expand_entry docs_fs ''docs'' = [''docs/archive.pdf'', ''docs/report.pdf'']"
  by (simp add: expand_entry_def strip_docs has_wildcard_def supported_patterns_def join_docs
      docs_fs_def)

lemma expand_docs_star: "expand_entry docs_fs ''docs/*'' = [''docs/notes.txt'', ''docs/report.pdf'']"
  by (simp add: expand_entry_def strip_def isspace_def has_wildcard_def docs_fs_def)

text \<open>
  C7 at the failing input: the directory \<^verbatim>\<open>docs\<close> holds a subdirectory named
  \<^verbatim>\<open>archive.pdf\<close>.  The directory branch extends the work list with every name the three
  patterns match and does not test \<^verbatim>\<open>os.path.isfile\<close>, so the subdirectory is queued;
  the wildcard branch, given \<^verbatim>\<open>docs/*\<close>, does test it and leaves the subdirectory out.
\<close>

theorem directory_branch_keeps_non_files:
  "resolve docs_fs [''docs''] = [''docs/archive.pdf'', ''docs/report.pdf'']
   \<and> \<not> isfile docs_fs ''docs/archive.pdf''
   \<and> isdir docs_fs ''docs/archive.pdf''
   \<and> resolve docs_fs [''docs/*''] = [''docs/notes.txt'', ''docs/report.pdf'']"
  by (simp add: resolve_def expand_docs expand_docs_star) (simp add: docs_fs_def)


section \<open>Properties of the worker counts\<close>

lemma MAX_WORKERS_even:
  "MAX_WORKERS (2 * k) = (if k \<le> 2 then PyInt 1 else PyFloat (of_nat k - 1))"
  by (auto simp add: MAX_WORKERS_def Let_def)

lemma MAX_WORKERS_odd:
  "MAX_WORKERS (2 * k + 1) = (if k \<le> 1 then PyInt 1 else PyFloat (of_nat k - 1 / 2))"
  by (auto simp add: MAX_WORKERS_def Let_def field_simps)

lemma batch_max_workers_default:
  "batch_max_workers cpu_count file_paths None = min (int cpu_count) (int (length file_paths))"
  by (simp add: batch_max_workers_def)

text \<open>
  C5 at the failing input: with five CPUs the module computes \<open>5 / 2 - 1\<close> by true
  division, so \<^verbatim>\<open>MAX_WORKERS\<close> is the float \<open>1.5\<close>, where the stated formula gives the
  integer \<open>1\<close>.
\<close>

theorem MAX_WORKERS_five_cpus:
  "MAX_WORKERS 5 = PyFloat (3 / 2) \<and> spec_capacity 5 = 1 \<and> MAX_WORKERS 5 \<noteq> PyInt (spec_capacity 5)"
  by (simp add: MAX_WORKERS_def spec_capacity_def)

text \<open>
  C10: \<^verbatim>\<open>batch_convert\<close> with an empty list and the default \<^verbatim>\<open>max_workers\<close> derives the
  worker count \<open>min(cpu_count, 0) = 0\<close>, the executor's constructor rejects it, and the
  call raises instead of returning the empty dictionary.
\<close>

theorem batch_convert_empty_raises:
  "batch_max_workers cpu_count [] None = 0
   \<and> batch_convert cpu_count conv [] None = Inl ''max_workers must be greater than 0''
   \<and> batch_convert cpu_count conv [] None \<noteq> Inr Map.empty"
  by (simp add: batch_convert_def batch_max_workers_def)


section \<open>Properties of the status store\<close>

text \<open>
  A status read returns the records of the dictionary the global refers to; the
  allocator's invariant holds in every state the program reaches; and on such states
  the heap operations do what the specification's store does.
\<close>

lemma status_reads: "fst (status s) = jsonify s (conversion_status s)"
  by (rule ext) (simp add: status_def dict_copy_def jsonify_def Let_def split: option.splits)

lemma wf_init: "wf init_state"
  by (simp add: wf_def init_state_def)

lemma wf_setitem: "wf s \<Longrightarrow> wf (setitem p e s)"
  by (auto simp add: wf_def setitem_def Let_def less_Suc_eq split: if_splits)

lemma wf_clear: "wf s \<Longrightarrow> wf (clear s)"
  by (auto simp add: wf_def clear_def Let_def less_Suc_eq split: if_splits)

lemma wf_status: "wf s \<Longrightarrow> wf (snd (status s))"
  by (auto simp add: wf_def status_def dict_copy_def Let_def less_Suc_eq split: if_splits)

lemma wf_submit: "wf s \<Longrightarrow> wf (executor_submit p s)"
  by (simp add: wf_def executor_submit_def)

lemma wf_exec_op: "wf s \<Longrightarrow> wf (exec_op a s)"
  by (cases a) (simp_all add: wf_setitem wf_clear wf_status wf_submit)

lemma wf_run: "wf s \<Longrightarrow> wf (run ops s)"
  by (induction ops arbitrary: s) (simp_all add: run_def wf_exec_op)

lemma view_setitem:
  assumes "wf s"
  shows "jsonify (setitem p e s) (conversion_status (setitem p e s))
           = (jsonify s (conversion_status s))(p \<mapsto> e)"
proof
  fix q
  show "jsonify (setitem p e s) (conversion_status (setitem p e s)) q
          = ((jsonify s (conversion_status s))(p \<mapsto> e)) q"
    using assms
    by (auto simp add: jsonify_def setitem_def Let_def wf_def split: option.splits)
qed

lemma view_setitem_same:
  "jsonify (setitem p e s) (conversion_status (setitem p e s)) p = Some e"
  by (simp add: jsonify_def setitem_def Let_def)

lemma view_clear: "jsonify (clear s) (conversion_status (clear s)) = Map.empty"
  by (rule ext) (simp add: jsonify_def clear_def Let_def)

lemma view_status:
  "jsonify (snd (status s)) (conversion_status (snd (status s))) = jsonify s (conversion_status s)"
  by (rule ext) (simp add: status_def dict_copy_def jsonify_def Let_def split: option.splits)

lemma view_submit:
  "jsonify (executor_submit p s) (conversion_status (executor_submit p s))
     = jsonify s (conversion_status s)"
  by (rule ext) (simp add: executor_submit_def jsonify_def split: option.splits)

lemma view_exec_op:
  "wf s \<Longrightarrow> jsonify (exec_op a s) (conversion_status (exec_op a s))
             = spec_exec a (jsonify s (conversion_status s))"
  by (cases a) (simp_all add: view_setitem view_clear view_status view_submit)

lemma view_run:
  "wf s \<Longrightarrow> jsonify (run ops s) (conversion_status (run ops s))
             = fold spec_exec ops (jsonify s (conversion_status s))"
proof (induction ops arbitrary: s)
  case Nil
  show ?case by (simp add: run_def)
next
  case (Cons a ops)
  have "jsonify (run ops (exec_op a s)) (conversion_status (run ops (exec_op a s)))
          = fold spec_exec ops (jsonify (exec_op a s) (conversion_status (exec_op a s)))"
    using Cons.prems by (intro Cons.IH wf_exec_op)
  then show ?case
    using Cons.prems by (simp add: run_def view_exec_op)
qed

lemma view_init: "jsonify init_state (conversion_status init_state) = Map.empty"
  by (rule ext) (simp add: jsonify_def init_state_def)

lemma status_refines_spec: "fst (status (run ops init_state)) = spec_store ops"
  by (simp add: status_reads view_run wf_init view_init spec_store_def)

lemma spec_exec_origin:
  "fold spec_exec ops m p = Some e \<Longrightarrow> m p = Some e \<or> SetItem p e \<in> set ops"
proof (induction ops arbitrary: m)
  case Nil
  then show ?case by simp
next
  case (Cons a ops)
  from Cons.prems have "fold spec_exec ops (spec_exec a m) p = Some e" by simp
  from Cons.IH [OF this] show ?case
    by (cases a) (auto split: if_splits)
qed

text \<open>
  A dictionary that is not the one the global refers to is never written again, and the
  records it refers to are never overwritten.
\<close>

lemma frozen_exec_op:
  assumes "wf s" "d < next_ref s" "d \<noteq> conversion_status s"
  shows "jsonify (exec_op a s) d = jsonify s d
         \<and> d < next_ref (exec_op a s) \<and> d \<noteq> conversion_status (exec_op a s)"
proof (cases a)
  case (SetItem p e)
  have "jsonify (setitem p e s) d = jsonify s d"
    using assms
    by (intro ext) (auto simp add: jsonify_def setitem_def Let_def wf_def split: option.splits)
  with SetItem assms show ?thesis by (simp add: setitem_def Let_def)
next
  case (ExecutorSubmit p)
  have "jsonify (executor_submit p s) d = jsonify s d"
    by (intro ext) (simp add: executor_submit_def jsonify_def split: option.splits)
  with ExecutorSubmit assms show ?thesis by (simp add: executor_submit_def)
next
  case ClearAll
  have "jsonify (clear s) d = jsonify s d"
    using assms by (intro ext) (simp add: jsonify_def clear_def Let_def split: option.splits)
  with ClearAll assms show ?thesis by (simp add: clear_def Let_def)
next
  case Snapshot
  have "jsonify (snd (status s)) d = jsonify s d"
    using assms
    by (intro ext) (simp add: jsonify_def status_def dict_copy_def Let_def split: option.splits)
  with Snapshot assms show ?thesis by (simp add: status_def dict_copy_def Let_def)
qed

lemma frozen_run:
  "wf s \<Longrightarrow> d < next_ref s \<Longrightarrow> d \<noteq> conversion_status s \<Longrightarrow> jsonify (run ops s) d = jsonify s d"
proof (induction ops arbitrary: s)
  case Nil
  show ?case by (simp add: run_def)
next
  case (Cons a ops)
  from frozen_exec_op [OF Cons.prems, of a]
  have a: "jsonify (exec_op a s) d = jsonify s d"
    and b: "d < next_ref (exec_op a s)" and c: "d \<noteq> conversion_status (exec_op a s)"
    by simp_all
  have "jsonify (run ops (exec_op a s)) d = jsonify (exec_op a s) d"
    using Cons.prems(1) b c by (intro Cons.IH wf_exec_op)
  with a show ?case by (simp add: run_def)
qed

lemma dict_copy_fresh:
  assumes "wf s"
  shows "fst (dict_copy (conversion_status s) s) = next_ref s"
    and "wf (snd (dict_copy (conversion_status s) s))"
    and "fst (dict_copy (conversion_status s) s) < next_ref (snd (dict_copy (conversion_status s) s))"
    and "fst (dict_copy (conversion_status s) s) \<noteq> conversion_status (snd (dict_copy (conversion_status s) s))"
    and "jsonify (snd (dict_copy (conversion_status s) s)) (fst (dict_copy (conversion_status s) s)) = fst (status s)"
    and "snd (dict_copy (conversion_status s) s) = snd (status s)"
  using assms wf_status [OF assms]
  by (auto simp add: dict_copy_def Let_def wf_def status_def)

text \<open>
  C4: the status route returns, for every state the program can reach, exactly the
  mapping the specification's store holds after the same operations, so every returned
  record is the whole record of one earlier write of that path; the dictionary it
  serialises is a new object, not the one the global refers to; and whatever store
  operations follow, serialising that object again gives the same text: the copy
  shares its record objects with the store, but no statement of the program writes
  into a record or into the copy.
\<close>

theorem status_snapshot_independent:
  "fst (status (run before init_state)) = spec_store before
   \<and> (\<forall>path entry. fst (status (run before init_state)) path = Some entry
          \<longrightarrow> SetItem path entry \<in> set before)
   \<and> fst (dict_copy (conversion_status (run before init_state)) (run before init_state))
        \<noteq> conversion_status (snd (status (run before init_state)))
   \<and> jsonify (run later (snd (status (run before init_state))))
        (fst (dict_copy (conversion_status (run before init_state)) (run before init_state)))
       = fst (status (run before init_state))"
proof -
  let ?s = "run before init_state"
  have w: "wf ?s" by (simp add: wf_run wf_init)
  note dc = dict_copy_fresh [OF w]
  have 1: "fst (status ?s) = spec_store before" by (rule status_refines_spec)
  have 2: "SetItem path entry \<in> set before" if "fst (status ?s) path = Some entry" for path entry
    using that spec_exec_origin [of before Map.empty path entry]
    by (simp add: 1 spec_store_def)
  have 3: "fst (dict_copy (conversion_status ?s) ?s) \<noteq> conversion_status (snd (status ?s))"
    using dc(4) dc(6) by simp
  have "jsonify (run later (snd (dict_copy (conversion_status ?s) ?s))) (fst (dict_copy (conversion_status ?s) ?s))
      = jsonify (snd (dict_copy (conversion_status ?s) ?s)) (fst (dict_copy (conversion_status ?s) ?s))"
    using dc(2) dc(3) dc(4) by (rule frozen_run)
  then have 4: "jsonify (run later (snd (status ?s))) (fst (dict_copy (conversion_status ?s) ?s))
      = fst (status ?s)"
    using dc(5) dc(6) by simp
  from 1 2 3 4 show ?thesis by blast
qed

theorem status_snapshot_independent_witness:
  "fst (status (run [SetItem ''a.pdf'' first_entry] init_state)) ''a.pdf'' = Some first_entry
   \<and> SetItem ''a.pdf'' first_entry \<in> set [SetItem ''a.pdf'' first_entry]
   \<and> jsonify (run [SetItem ''a.pdf'' second_entry, ClearAll]
                 (snd (status (run [SetItem ''a.pdf'' first_entry] init_state))))
        (fst (dict_copy (conversion_status (run [SetItem ''a.pdf'' first_entry] init_state))
                (run [SetItem ''a.pdf'' first_entry] init_state))) ''a.pdf''
        = Some first_entry"
proof -
  note t = status_snapshot_independent [of "[SetItem ''a.pdf'' first_entry]" "[SetItem ''a.pdf'' second_entry, ClearAll]"]
  have s: "spec_store [SetItem ''a.pdf'' first_entry] ''a.pdf'' = Some first_entry"
    by (simp add: spec_store_def)
  from t s have 1: "fst (status (run [SetItem ''a.pdf'' first_entry] init_state)) ''a.pdf'' = Some first_entry"
    by simp
  with t have 2: "SetItem ''a.pdf'' first_entry \<in> set [SetItem ''a.pdf'' first_entry]"
    by blast
  from t 1 have 3: "jsonify (run [SetItem ''a.pdf'' second_entry, ClearAll]
                 (snd (status (run [SetItem ''a.pdf'' first_entry] init_state))))
        (fst (dict_copy (conversion_status (run [SetItem ''a.pdf'' first_entry] init_state))
                (run [SetItem ''a.pdf'' first_entry] init_state))) ''a.pdf''
        = Some first_entry"
    by simp
  from 1 2 3 show ?thesis by blast
qed

lemma store_changed:
  "fst (status (run [SetItem ''a.pdf'' second_entry, ClearAll]
                 (snd (status (run [SetItem ''a.pdf'' first_entry] init_state))))) = Map.empty"
  by (simp add: run_def status_reads view_clear)


section \<open>Properties of the job and of the convert route\<close>

lemma process_single_file_ops:
  "process_single_file collab now fp =
     ([SetItem fp \<lparr>status_of = ''Processing'', message_of = ''Converting to Markdown...'',
                   timestamp_of = now 0\<rparr>,
       SetItem fp (final_entry (collab fp) (now 1))], None)"
  by (simp add: process_single_file_def try_body_def final_entry_def Let_def
      split: sum.splits prod.splits)

lemma final_entry_terminal:
  "status_of (final_entry outcome t) = ''Completed'' \<or> status_of (final_entry outcome t) = ''Error''"
  by (simp add: final_entry_def split: sum.splits prod.splits)

text \<open>
  C2: whatever the conversion of the file does (reports success, reports failure or
  raises), no exception leaves \<^verbatim>\<open>process_single_file\<close>; it executes exactly one write of
  a final state, which is its last statement and stores the record the specification
  asks for; and in the state after the job a status read shows that record for the
  path, so not \<^verbatim>\<open>'Processing'\<close>.
\<close>

theorem process_single_file_one_terminal_write:
  "snd (process_single_file collab now fp) = None
   \<and> filter terminal_write (fst (process_single_file collab now fp))
        = [SetItem fp (final_entry (collab fp) (now 1))]
   \<and> last (fst (process_single_file collab now fp)) = SetItem fp (final_entry (collab fp) (now 1))
   \<and> fst (status (run (fst (process_single_file collab now fp)) s)) fp
        = Some (final_entry (collab fp) (now 1))
   \<and> status_of (final_entry (collab fp) (now 1)) \<noteq> ''Processing''"
proof -
  have t: "status_of (final_entry (collab fp) (now 1)) = ''Completed''
           \<or> status_of (final_entry (collab fp) (now 1)) = ''Error''"
    by (rule final_entry_terminal)
  have 1: "snd (process_single_file collab now fp) = None"
    by (simp add: process_single_file_ops)
  have 2: "filter terminal_write (fst (process_single_file collab now fp))
        = [SetItem fp (final_entry (collab fp) (now 1))]"
    using t by (simp add: process_single_file_ops)
  have 3: "last (fst (process_single_file collab now fp)) = SetItem fp (final_entry (collab fp) (now 1))"
    by (simp add: process_single_file_ops)
  have 4: "fst (status (run (fst (process_single_file collab now fp)) s)) fp
        = Some (final_entry (collab fp) (now 1))"
    by (simp add: process_single_file_ops run_def status_reads view_setitem_same)
  have 5: "status_of (final_entry (collab fp) (now 1)) \<noteq> ''Processing''"
    using t by auto
  from 1 2 3 4 5 show ?thesis by blast
qed

lemma no_temp_raises: "no_temp_collab ''a.pdf'' = Inl ''[Errno 28] No space left on device''"
  by (simp add: no_temp_collab_def convert_file_to_markdown_def no_temp_env_def easy_env_def)

theorem process_single_file_one_terminal_write_witness:
  "snd (process_single_file no_temp_collab strokes ''a.pdf'') = None
   \<and> fst (status (run (fst (process_single_file no_temp_collab strokes ''a.pdf'')) init_state)) ''a.pdf''
        = Some \<lparr>status_of = ''Error'', message_of = ''Error: [Errno 28] No space left on device'',
                 timestamp_of = ''|''\<rparr>"
  using process_single_file_one_terminal_write [of no_temp_collab strokes "''a.pdf''" init_state]
  by (simp add: no_temp_raises final_entry_def strokes_def)

text \<open>
  C6: a status read after \<^verbatim>\<open>clear\<close> returns the empty mapping; a write after \<^verbatim>\<open>clear\<close>
  makes an entry that the next read returns; and a job that wrote \<^verbatim>\<open>'Processing'\<close>
  before the \<^verbatim>\<open>clear\<close> and finishes after it leaves exactly its final record.
\<close>

theorem clear_then_upsert:
  "fst (status (clear s)) = Map.empty
   \<and> fst (status (setitem path entry (clear s))) = [path \<mapsto> entry]
   \<and> fst (status (run (take 1 (fst (process_single_file collab now fp)) @ ClearAll
                         # drop 1 (fst (process_single_file collab now fp))) s))
        = [fp \<mapsto> final_entry (collab fp) (now 1)]"
proof -
  have 1: "fst (status (clear s)) = Map.empty"
    by (simp add: status_reads view_clear)
  have 2: "fst (status (setitem path entry (clear s'))) = [path \<mapsto> entry]" for path entry s'
    unfolding status_reads
    by (rule ext) (simp add: jsonify_def setitem_def clear_def Let_def)
  have 3: "fst (status (run (take 1 (fst (process_single_file collab now fp)) @ ClearAll
                         # drop 1 (fst (process_single_file collab now fp))) s))
        = [fp \<mapsto> final_entry (collab fp) (now 1)]"
    by (simp add: process_single_file_ops run_def 2)
  from 1 2 3 show ?thesis by simp
qed










section \<open>Properties of the copy loop\<close>

lemma range_retries: "[0..<max_retries] = [0, 1, 2]"
  by (simp add: max_retries_def upt_rec)


lemma copy_loop_unlocked:
  "\<not> locked (copy2 env k) \<Longrightarrow>
   copy_loop env (k # rest) d tr =
     ((case copy2 env k of Done \<Rightarrow> Copied | OSError e \<Rightarrow> Raised e | OtherException e \<Rightarrow> Raised e),
      tr @ [CopyAttempt k])"
  by (cases "copy2 env k") simp_all

lemma copy_loop_locked_early:
  "locked (copy2 env k) \<Longrightarrow> k < max_retries - 1 \<Longrightarrow>
   copy_loop env (k # rest) d tr = copy_loop env rest (d * 2) (tr @ [CopyAttempt k, Sleep d])"
  by (cases "copy2 env k") simp_all

lemma copy_loop_locked_last:
  "locked (copy2 env k) \<Longrightarrow> \<not> k < max_retries - 1 \<Longrightarrow>
   copy_loop env [k] d tr =
     (case raw_copy env of
        None \<Rightarrow> (Copied, tr @ [CopyAttempt k, RawCopy])
      | Some read_error \<Rightarrow>
          (Returned (False, ''File is in use and cannot be accessed: '' @ read_error),
           tr @ [CopyAttempt k, RawCopy]))"
  by (cases "copy2 env k") (simp_all split: option.splits)

lemma copy_loop_all:
  "copy_loop env [0..<max_retries] (1 / 2) [] =
     (if \<not> locked (copy2 env 0) then (ending (copy2 env 0), [CopyAttempt 0])
      else if \<not> locked (copy2 env 1) then
        (ending (copy2 env 1), [CopyAttempt 0, Sleep (1 / 2), CopyAttempt 1])
      else if \<not> locked (copy2 env 2) then
        (ending (copy2 env 2),
         [CopyAttempt 0, Sleep (1 / 2), CopyAttempt 1, Sleep 1, CopyAttempt 2])
      else
        (case raw_copy env of
           None \<Rightarrow> Copied
         | Some read_error \<Rightarrow>
             Returned (False, ''File is in use and cannot be accessed: '' @ read_error),
         [CopyAttempt 0, Sleep (1 / 2), CopyAttempt 1, Sleep 1, CopyAttempt 2, RawCopy]))"
proof (cases "locked (copy2 env 0)")
  case False
  then show ?thesis
    unfolding range_retries by (simp add: copy_loop_unlocked ending_def del: copy_loop.simps)
next
  case l0: True
  show ?thesis
  proof (cases "locked (copy2 env 1)")
    case False
    with l0 show ?thesis
      unfolding range_retries
      by (simp add: copy_loop_unlocked copy_loop_locked_early ending_def max_retries_def
          del: copy_loop.simps)
  next
    case l1: True
    show ?thesis
    proof (cases "locked (copy2 env 2)")
      case False
      with l0 l1 show ?thesis
        unfolding range_retries
        by (simp add: copy_loop_unlocked copy_loop_locked_early ending_def max_retries_def
            del: copy_loop.simps)
    next
      case True
      with l0 l1 show ?thesis
        unfolding range_retries
        by (simp add: copy_loop_locked_early copy_loop_locked_last max_retries_def
            del: copy_loop.simps split: option.splits)
    qed
  qed
qed


lemma ending_not_returned: "ending x \<noteq> Returned r"
  by (simp add: ending_def split: io_outcome.splits)


lemma convert_all_locked:
  assumes "file_exists env" "mkstemp env = Inr temp_file"
    and "locked (copy2 env 0)" "locked (copy2 env 1)" "locked (copy2 env 2)"
  shows "convert_file_to_markdown env input_file output_file =
           (case raw_copy env of
              None \<Rightarrow> Inr (after_copy env (choose_output env output_file))
            | Some e \<Rightarrow> Inr (False, ''File is in use and cannot be accessed: '' @ e),
            [CopyAttempt 0, Sleep (1 / 2), CopyAttempt 1, Sleep 1, CopyAttempt 2, RawCopy])"
  using assms
  by (simp add: convert_file_to_markdown_def Let_def copy_loop_all split: option.splits)

lemma after_copy_not_in_use:
  "after_copy env out \<noteq> (False, ''File is in use and cannot be accessed: '' @ e)"
  by (simp add: after_copy_def split: option.splits)


lemma locked_env_trace:
  "snd (convert_file_to_markdown locked_env ''a.pdf'' None)
     = [CopyAttempt 0, Sleep (1 / 2), CopyAttempt 1, Sleep 1, CopyAttempt 2, RawCopy]"
proof -
  have "convert_file_to_markdown locked_env ''a.pdf'' None =
          (case raw_copy locked_env of
             None \<Rightarrow> Inr (after_copy locked_env (choose_output locked_env None))
           | Some e \<Rightarrow> Inr (False, ''File is in use and cannot be accessed: '' @ e),
           [CopyAttempt 0, Sleep (1 / 2), CopyAttempt 1, Sleep 1, CopyAttempt 2, RawCopy])"
    by (rule convert_all_locked [where temp_file = "''tmp.pdf''"])
       (simp_all add: locked_env_def is_lock_error_def)
  then show ?thesis by simp
qed



end
